theory Spec2Isabelle
  imports Complex_Main "HOL-Library.Log_Nat"
begin

section \<open>Strings and numbers of the host language\<close>

text \<open>
  A string of the source is a sequence of UTF-16 code units; \<open>lit\<close> writes a literal of
  the source. An instant of \<open>Date.now()\<close> is a natural number of milliseconds.
\<close>

type_synonym js_string = "nat list"

definition lit :: "string \<Rightarrow> js_string" where
  "lit s = map of_char s"

text \<open>
  \<open>String.prototype.trim\<close> removes, at both ends, the code units that ECMAScript
  calls WhiteSpace or LineTerminator: TAB, LF, VT, FF, CR, SPACE, NBSP, U+1680,
  U+2000 to U+200A, U+2028, U+2029, U+202F, U+205F, U+3000 and U+FEFF.
\<close>

definition isWhiteSpace :: "nat \<Rightarrow> bool" where
  "isWhiteSpace c \<longleftrightarrow>
     c = 9 \<or> c = 10 \<or> c = 11 \<or> c = 12 \<or> c = 13 \<or> c = 32 \<or> c = 160 \<or> c = 5760 \<or>
     (8192 \<le> c \<and> c \<le> 8202) \<or> c = 8232 \<or> c = 8233 \<or> c = 8239 \<or> c = 8287 \<or>
     c = 12288 \<or> c = 65279"

definition trim :: "js_string \<Rightarrow> js_string" where
  "trim s = rev (dropWhile isWhiteSpace (rev (dropWhile isWhiteSpace s)))"

text \<open>
  \<open>s.replace(pat, rep)\<close> with a string pattern: only the first occurrence of \<open>pat\<close>
  is replaced, and a string without the pattern is returned as it is.
\<close>

fun replace_first :: "'a list \<Rightarrow> 'a list \<Rightarrow> 'a list \<Rightarrow> 'a list" where
  "replace_first pat rep [] = (if pat = [] then rep else [])"
| "replace_first pat rep (c # cs) =
     (if take (length pat) (c # cs) = pat then rep @ drop (length pat) (c # cs)
      else c # replace_first pat rep cs)"

text \<open>The decimal digits of a natural number, as a template literal prints it.\<close>

function dec :: "nat \<Rightarrow> js_string" where
  "dec n = (if n < 10 then [48 + n] else dec (n div 10) @ [48 + n mod 10])"
  by pat_completeness auto
termination
  by (relation "measure id") auto

declare dec.simps [simp del]

text \<open>
  A number of the source is an IEEE binary64 value: \<open>Finite m e\<close> stands for
  \<open>m * 2^e\<close>, and there are the two infinities and NaN. The sign of zero is not kept:
  nothing here tells \<open>-0\<close> from \<open>0\<close>.
\<close>

datatype number = Finite int int | PosInf | NegInf | NaN

text \<open>
  The binary64 value nearest to \<open>m * 2^e\<close>, ties to the even significand: the
  significand keeps 53 bits, the exponent of its last bit is at least \<open>-1074\<close>, and a
  result of \<open>2^1024\<close> or more is an infinity.
\<close>

definition round_double :: "int \<Rightarrow> int \<Rightarrow> number" where
  "round_double m e =
     (let n = \<bar>m\<bar>;
          s = nat (max (bitlen n - 53) (- 1074 - e));
          q = n div 2 ^ s;
          r = n mod 2 ^ s;
          q' = (if 2 ^ s < 2 * r \<or> (2 * r = 2 ^ s \<and> odd q) then q + 1 else q)
      in if q' \<noteq> 0 \<and> 1024 < bitlen q' + (e + int s)
         then (if m < 0 then NegInf else PosInf)
         else Finite (sgn m * q') (e + int s))"

fun is_zero :: "number \<Rightarrow> bool" where
  "is_zero (Finite m e) = (m = 0)"
| "is_zero x = False"

fun negative :: "number \<Rightarrow> bool" where
  "negative (Finite m e) = (m < 0)"
| "negative NegInf = True"
| "negative x = False"

text \<open>\<open>x + y\<close> and \<open>x * y\<close> on numbers: the exact result, rounded.\<close>

fun js_add :: "number \<Rightarrow> number \<Rightarrow> number" where
  "js_add (Finite m1 e1) (Finite m2 e2) =
     round_double (m1 * 2 ^ nat (e1 - min e1 e2) + m2 * 2 ^ nat (e2 - min e1 e2)) (min e1 e2)"
| "js_add NaN y = NaN"
| "js_add x NaN = NaN"
| "js_add PosInf NegInf = NaN"
| "js_add NegInf PosInf = NaN"
| "js_add PosInf y = PosInf"
| "js_add NegInf y = NegInf"
| "js_add x y = y"

fun js_mul :: "number \<Rightarrow> number \<Rightarrow> number" where
  "js_mul (Finite m1 e1) (Finite m2 e2) = round_double (m1 * m2) (e1 + e2)"
| "js_mul NaN y = NaN"
| "js_mul x NaN = NaN"
| "js_mul x y =
     (if is_zero x \<or> is_zero y then NaN
      else if negative x = negative y then PosInf else NegInf)"

text \<open>
  \<open>a || b\<close> on numbers, where \<open>a\<close> may be undefined: \<open>b\<close> when \<open>a\<close> is undefined, zero or
  NaN.
\<close>

definition or_else :: "number option \<Rightarrow> number \<Rightarrow> number" where
  "or_else a b = (case a of None \<Rightarrow> b | Some x \<Rightarrow> if is_zero x \<or> x = NaN then b else x)"

text \<open>
  A number stored in an attribute of IDL type \<open>unsigned long\<close> is truncated towards zero
  and reduced modulo \<open>2^32\<close>; an infinity and NaN become \<open>0\<close>. The width and the height
  of a canvas reflect their content attributes: a value above \<open>2147483647\<close> is replaced
  by the default.
\<close>

fun to_unsigned_long :: "number \<Rightarrow> nat" where
  "to_unsigned_long (Finite m e) =
     nat ((sgn m * (if 0 \<le> e then \<bar>m\<bar> * 2 ^ nat e else \<bar>m\<bar> div 2 ^ nat (- e))) mod 2 ^ 32)"
| "to_unsigned_long x = 0"

definition set_dimension :: "nat \<Rightarrow> number \<Rightarrow> nat" where
  "set_dimension dflt x =
     (if to_unsigned_long x \<le> 2147483647 then to_unsigned_long x else dflt)"

section \<open>The document\<close>

text \<open>
  An attribute holds a text, or the text \<open>x.toString()\<close> of a number \<open>x\<close>.
\<close>

datatype attr_value = Text js_string | NumberText number

text \<open>
  An \<open>svg\<close> element: the size of its view box (\<open>viewBox?.baseVal\<close>, undefined when
  there is none), the size of its bounding client rectangle, its attributes, its inline
  style and its content.
\<close>

record svg_element =
  viewBox :: "(number \<times> number) option"
  rect :: "number \<times> number"
  attributes :: "(js_string \<times> attr_value) list"
  style :: "(js_string \<times> js_string) list"
  children :: js_string

text \<open>Setting an attribute or a style property replaces its value or adds it.\<close>

fun assign :: "'k \<Rightarrow> 'v \<Rightarrow> ('k \<times> 'v) list \<Rightarrow> ('k \<times> 'v) list" where
  "assign k v [] = [(k, v)]"
| "assign k v ((k', v') # kvs) =
     (if k' = k then (k, v) # kvs else (k', v') # assign k v kvs)"

definition setAttribute :: "js_string \<Rightarrow> attr_value \<Rightarrow> svg_element \<Rightarrow> svg_element" where
  "setAttribute name v el = el\<lparr>attributes := assign name v (attributes el)\<rparr>"

definition setStyle :: "js_string \<Rightarrow> js_string \<Rightarrow> svg_element \<Rightarrow> svg_element" where
  "setStyle name v el = el\<lparr>style := assign name v (style el)\<rparr>"

text \<open>
  The text that \<open>XMLSerializer.serializeToString\<close> writes for an element: everything
  but its layout.
\<close>

datatype svg_text =
  SvgText "(number \<times> number) option" "(js_string \<times> attr_value) list"
    "(js_string \<times> js_string) list" js_string

definition serializeToString :: "svg_element \<Rightarrow> svg_text" where
  "serializeToString el = SvgText (viewBox el) (attributes el) (style el) (children el)"

text \<open>
  The panel that \<open>renderChart\<close> writes when rendering fails: a heading, a short
  message, and a \<open>details\<close> element whose \<open>summary\<close> discloses the text of the error.
\<close>

record error_panel =
  heading :: js_string
  message :: js_string
  summary :: js_string
  detail :: js_string

text \<open>
  The children of the container, in document order: an \<open>svg\<close> element is an object of
  the heap, named by its index there; the error panel; any other node. Elements nested
  in another node are not told apart.
\<close>

datatype node = SvgEl nat | PanelEl error_panel | OtherEl js_string

fun querySelector_svg :: "node list \<Rightarrow> nat option" where
  "querySelector_svg [] = None"
| "querySelector_svg (SvgEl r # ns) = Some r"
| "querySelector_svg (n # ns) = querySelector_svg ns"

text \<open>
  What the render engine returns, parsed: \<open>mermaid.render\<close> resolves with markup or
  rejects with an error, whose text is \<open>`${error}`\<close>.
\<close>

datatype markup_node = MSvg svg_element | MOther js_string

datatype outcome = Success "markup_node list" | Failure js_string

section \<open>The canvas\<close>

datatype draw_op =
  FillRect js_string "number \<times> number" number number number number
| DrawImage svg_text "number \<times> number" number number number number

record canvas =
  cwidth :: nat
  cheight :: nat
  transform :: "number \<times> number"
  fillStyle :: js_string
  drawn :: "draw_op list"

definition createCanvas :: canvas where
  "createCanvas =
     \<lparr>cwidth = 300, cheight = 150, transform = (Finite 1 0, Finite 1 0),
      fillStyle = lit ''#000000'', drawn = []\<rparr>"

text \<open>Setting a dimension clears the bitmap and resets the drawing state.\<close>

definition set_width :: "number \<Rightarrow> canvas \<Rightarrow> canvas" where
  "set_width x c =
     c\<lparr>cwidth := set_dimension 300 x, transform := (Finite 1 0, Finite 1 0),
       fillStyle := lit ''#000000'', drawn := []\<rparr>"

definition set_height :: "number \<Rightarrow> canvas \<Rightarrow> canvas" where
  "set_height x c =
     c\<lparr>cheight := set_dimension 150 x, transform := (Finite 1 0, Finite 1 0),
       fillStyle := lit ''#000000'', drawn := []\<rparr>"

definition ctx_scale :: "number \<Rightarrow> number \<Rightarrow> canvas \<Rightarrow> canvas" where
  "ctx_scale sx sy c =
     c\<lparr>transform := (js_mul (fst (transform c)) sx, js_mul (snd (transform c)) sy)\<rparr>"

definition fillRect :: "number \<Rightarrow> number \<Rightarrow> number \<Rightarrow> number \<Rightarrow> canvas \<Rightarrow> canvas" where
  "fillRect x y w h c = c\<lparr>drawn := drawn c @ [FillRect (fillStyle c) (transform c) x y w h]\<rparr>"

definition drawImage ::
  "svg_text \<Rightarrow> number \<Rightarrow> number \<Rightarrow> number \<Rightarrow> number \<Rightarrow> canvas \<Rightarrow> canvas" where
  "drawImage img x y w h c = c\<lparr>drawn := drawn c @ [DrawImage img (transform c) x y w h]\<rparr>"

section \<open>The page\<close>

text \<open>
  A render attempt suspended at \<open>await mermaid.render(id, chart)\<close>, an image whose
  \<open>onload\<close> or \<open>onerror\<close> handler has not run yet, a file saved by \<open>link.click()\<close>,
  and a line of the console.
\<close>

record attempt =
  attempt_id :: js_string
  attempt_chart :: js_string

record image_job =
  job_canvas :: canvas
  job_data :: svg_text
  job_filename :: js_string
  job_width :: number
  job_height :: number

datatype payload = PngBlob canvas | SvgBlob svg_text

record download =
  file_name :: js_string
  file_body :: payload

datatype log = LogInfo js_string js_string | LogError js_string js_string

text \<open>
  The state of the page around one instance of the component. \<open>heap\<close> holds the
  \<open>svg\<close> element objects, \<open>surfaces\<close> the canvases that exports have created, each as
  it is when \<open>downloadAsPNG\<close> returns or throws. \<open>container\<close> is
  \<open>mermaidRef.current\<close>: \<open>None\<close> while the component does not render its \<open>div\<close> (React
  sets the ref to null when the element leaves the document), otherwise the children of
  the \<open>div\<close>. \<open>chart\<close> is the prop of the last render, \<open>uncaught\<close> the errors that
  escaped: exceptions out of \<open>downloadAsPNG\<close> and rejections of the promise of
  \<open>renderChart\<close>.
\<close>

record page =
  heap :: "svg_element list"
  surfaces :: "canvas list"
  container :: "node list option"
  chart :: "js_string option"
  inflight :: "attempt list"
  decoding :: "image_job list"
  downloads :: "download list"
  console :: "log list"
  uncaught :: "js_string list"

definition initial :: page where
  "initial =
     \<lparr>heap = [], surfaces = [], container = None, chart = None, inflight = [],
      decoding = [], downloads = [], console = [], uncaught = []\<rparr>"

text \<open>
  The \<open>svg\<close> element that \<open>mermaidRef.current.querySelector('svg')\<close> finds. A reference
  outside the heap names no element (no state reached from \<open>initial\<close> has one).
\<close>

definition mounted_svg :: "page \<Rightarrow> nat option" where
  "mounted_svg st =
     (case container st of
        None \<Rightarrow> None
      | Some ns \<Rightarrow>
          (case querySelector_svg ns of
             None \<Rightarrow> None
           | Some r \<Rightarrow> if r < length (heap st) then Some r else None))"

text \<open>What the container shows: each element with its current value.\<close>

datatype shown = ShownSvg svg_element | ShownPanel error_panel | ShownOther js_string

fun show_node :: "svg_element list \<Rightarrow> node \<Rightarrow> shown" where
  "show_node h (SvgEl r) = (if r < length h then ShownSvg (h ! r) else ShownOther [])"
| "show_node h (PanelEl p) = ShownPanel p"
| "show_node h (OtherEl t) = ShownOther t"

definition display :: "page \<Rightarrow> shown list" where
  "display st = (case container st of None \<Rightarrow> [] | Some ns \<Rightarrow> map (show_node (heap st)) ns)"

text \<open>A write to the element object \<open>r\<close>.\<close>

definition update_element :: "nat \<Rightarrow> (svg_element \<Rightarrow> svg_element) \<Rightarrow> page \<Rightarrow> page" where
  "update_element r f st = st\<lparr>heap := (heap st)[r := f (heap st ! r)]\<rparr>"

section \<open>The render controller\<close>

text \<open>
  \<open>renderChart\<close> up to its \<open>await\<close> (lines 131 to 142): nothing happens without a
  container or for a chart that trims to the empty string; otherwise the container is
  cleared and an attempt starts, with the identifier \<open>`mermaid-${Date.now()}`\<close>.
\<close>

definition renderChart :: "js_string \<Rightarrow> nat \<Rightarrow> page \<Rightarrow> page" where
  "renderChart text now st =
     (if container st \<noteq> None \<and> trim text \<noteq> []
      then st\<lparr>console := console st @ [LogInfo (lit ''Mermaid diagram syntax:'') text],
              container := Some [],
              inflight := inflight st @
                [\<lparr>attempt_id = lit ''mermaid-'' @ dec now, attempt_chart = text\<rparr>]\<rparr>
      else st)"

text \<open>
  The component function, its commit and its effect (lines 112 to 184), for the prop
  \<open>chart = text\<close> at the instant \<open>now\<close>: a chart that trims to the empty string renders
  \<open>null\<close>, every other chart renders the \<open>div\<close> (the same element from one render to the
  next, so its children stay); the effect depends on \<open>[chart]\<close> and so runs on the
  first render and whenever the prop has changed.
\<close>

definition MermaidRenderer :: "js_string \<Rightarrow> nat \<Rightarrow> page \<Rightarrow> page" where
  "MermaidRenderer text now st =
     (let st1 = st\<lparr>container :=
                     (if trim text = [] then None
                      else (case container st of None \<Rightarrow> Some [] | Some ns \<Rightarrow> Some ns)),
                   chart := Some text\<rparr>
      in if chart st = Some text then st1 else renderChart text now st1)"

text \<open>
  \<open>mermaidRef.current.innerHTML = svg\<close>: the markup is parsed, every \<open>svg\<close> element is a
  new object.
\<close>

fun mount_nodes :: "markup_node list \<Rightarrow> svg_element list \<Rightarrow> node list \<times> svg_element list" where
  "mount_nodes [] h = ([], h)"
| "mount_nodes (MSvg e # ms) h =
     (case mount_nodes ms (h @ [e]) of (ns, h') \<Rightarrow> (SvgEl (length h) # ns, h'))"
| "mount_nodes (MOther t # ms) h =
     (case mount_nodes ms h of (ns, h') \<Rightarrow> (OtherEl t # ns, h'))"

definition set_innerHTML :: "markup_node list \<Rightarrow> page \<Rightarrow> page" where
  "set_innerHTML m st =
     (case mount_nodes m (heap st) of (ns, h') \<Rightarrow> st\<lparr>heap := h', container := Some ns\<rparr>)"

text \<open>Lines 148 to 153: the inline style of the first \<open>svg\<close> element of the container.\<close>

definition styled :: "svg_element \<Rightarrow> svg_element" where
  "styled el =
     setStyle (lit ''background-color'') (lit ''transparent'')
       (setStyle (lit ''height'') (lit ''auto'')
         (setStyle (lit ''max-width'') (lit ''100%'') el))"

definition style_svg :: "page \<Rightarrow> page" where
  "style_svg st =
     (case mounted_svg st of
        None \<Rightarrow> st
      | Some r \<Rightarrow> update_element r styled st)"

definition rendering_error_panel :: "js_string \<Rightarrow> error_panel" where
  "rendering_error_panel e =
     \<lparr>heading = lit ''Error rendering diagram'',
      message = lit ''Unable to render the mermaid diagram. Please check the syntax.'',
      summary = lit ''Show error details'',
      detail = e\<rparr>"

text \<open>The error of an assignment to \<open>mermaidRef.current.innerHTML\<close> while the ref is null.\<close>

definition null_innerHTML :: js_string where
  "null_innerHTML = lit ''TypeError: Cannot set properties of null (setting 'innerHTML')''"

text \<open>
  The \<open>catch\<close> block (lines 154 to 166): the error is logged and the panel is written
  into the container. The text of the error is kept as the text of the panel's detail:
  markup inside it, which the assignment to \<open>innerHTML\<close> would parse into elements, is
  not interpreted. Without a container the assignment to \<open>innerHTML\<close> throws, out of
  the block, and the promise of \<open>renderChart\<close> is rejected.
\<close>

definition catch_block :: "js_string \<Rightarrow> page \<Rightarrow> page" where
  "catch_block e st =
     (let st1 = st\<lparr>console := console st @ [LogError (lit ''Mermaid rendering error:'') e]\<rparr>
      in case container st1 of
           None \<Rightarrow> st1\<lparr>uncaught := uncaught st1 @ [null_innerHTML]\<rparr>
         | Some ns \<Rightarrow> st1\<lparr>container := Some [PanelEl (rendering_error_panel e)]\<rparr>)"

text \<open>
  \<open>renderChart\<close> after its \<open>await\<close> (lines 142 to 166). The result is written into the
  container whatever the chart of the attempt and whatever the prop is by now. Without
  a container, line 145 throws inside the \<open>try\<close>.
\<close>

fun resume :: "outcome \<Rightarrow> page \<Rightarrow> page" where
  "resume (Success m) st =
     (case container st of
        None \<Rightarrow> catch_block null_innerHTML st
      | Some ns \<Rightarrow> style_svg (set_innerHTML m st))"
| "resume (Failure e) st = catch_block e st"

definition remove_nth :: "nat \<Rightarrow> 'a list \<Rightarrow> 'a list" where
  "remove_nth i xs = take i xs @ drop (Suc i) xs"

text \<open>
  The engine settles the \<open>i\<close>-th attempt in flight, in any order: the attempts are not
  cancelled and carry no mark of being superseded.
\<close>

definition engine_done :: "nat \<Rightarrow> outcome \<Rightarrow> page \<Rightarrow> page" where
  "engine_done i out st =
     (if i < length (inflight st)
      then resume out (st\<lparr>inflight := remove_nth i (inflight st)\<rparr>)
      else st)"

section \<open>The raster exporter\<close>

text \<open>
  \<open>encodeURIComponent\<close> throws a \<open>URIError\<close> on a string with a lone surrogate, and on
  no other string; \<open>unescape\<close> and \<open>btoa\<close> of its result do not throw.
\<close>

definition high_surrogate :: "nat \<Rightarrow> bool" where
  "high_surrogate c \<longleftrightarrow> 55296 \<le> c \<and> c \<le> 56319"

definition low_surrogate :: "nat \<Rightarrow> bool" where
  "low_surrogate c \<longleftrightarrow> 56320 \<le> c \<and> c \<le> 57343"

fun well_formed :: "js_string \<Rightarrow> bool" where
  "well_formed [] = True"
| "well_formed [c] = (\<not> high_surrogate c \<and> \<not> low_surrogate c)"
| "well_formed (c # d # cs) =
     (if high_surrogate c then low_surrogate d \<and> well_formed cs
      else \<not> low_surrogate c \<and> well_formed (d # cs))"

fun well_formed_value :: "attr_value \<Rightarrow> bool" where
  "well_formed_value (Text t) = well_formed t"
| "well_formed_value (NumberText x) = True"

fun encodable :: "svg_text \<Rightarrow> bool" where
  "encodable (SvgText vb attrs sty body) =
     (list_all (\<lambda>(k, v). well_formed k \<and> well_formed_value v) attrs \<and>
      list_all (\<lambda>(k, v). well_formed k \<and> well_formed v) sty \<and>
      well_formed body)"

text \<open>Lines 40 and 41.\<close>

definition padding :: number where
  "padding = Finite 40 0"

definition scale :: number where
  "scale = Finite 2 0"

text \<open>
  Lines 27 and 28: the size of the view box, and where that is undefined or zero, the
  size of the bounding rectangle.
\<close>

definition logical_width :: "svg_element \<Rightarrow> number" where
  "logical_width el = or_else (map_option fst (viewBox el)) (fst (rect el))"

definition logical_height :: "svg_element \<Rightarrow> number" where
  "logical_height el = or_else (map_option snd (viewBox el)) (snd (rect el))"

text \<open>\<open>cloneNode(true)\<close>: a new object with the value of the element \<open>r\<close>.\<close>

definition cloneNode :: "nat \<Rightarrow> page \<Rightarrow> page" where
  "cloneNode r st = st\<lparr>heap := heap st @ [heap st ! r]\<rparr>"

definition set_fillStyle :: "js_string \<Rightarrow> canvas \<Rightarrow> canvas" where
  "set_fillStyle colour c = c\<lparr>fillStyle := colour\<rparr>"

text \<open>
  \<open>downloadAsPNG(filename)\<close> up to \<open>img.src = svgDataUrl\<close> (lines 16 to 57 and 105),
  where \<open>has_ctx\<close> tells whether \<open>canvas.getContext('2d')\<close> returns a context. It
  returns at line 17 or 20 when no \<open>svg\<close> element is mounted and at line 37 without a
  context, the canvas of line 35 left as it was created; line 54 throws when the
  serialized clone cannot be encoded, after the canvas was sized and filled. The
  handlers of the image run later, on the values captured here.
\<close>

definition downloadAsPNG :: "js_string option \<Rightarrow> bool \<Rightarrow> page \<Rightarrow> page" where
  "downloadAsPNG filename_arg has_ctx st =
     (let filename = (case filename_arg of None \<Rightarrow> lit ''mermaid-diagram.png'' | Some f \<Rightarrow> f)
      in if container st = None then st
         else
           (case mounted_svg st of
              None \<Rightarrow> st
            | Some svgElement \<Rightarrow>
                (let svgClone = length (heap st);
                     st1 = cloneNode svgElement st;
                     svgWidth = logical_width (heap st1 ! svgElement);
                     svgHeight = logical_height (heap st1 ! svgElement);
                     st2 = update_element svgClone
                             (setAttribute (lit ''width'') (NumberText svgWidth)) st1;
                     st3 = update_element svgClone
                             (setAttribute (lit ''height'') (NumberText svgHeight)) st2
                 in if \<not> has_ctx then st3\<lparr>surfaces := surfaces st3 @ [createCanvas]\<rparr>
                    else
                      (let canvas =
                             fillRect (Finite 0 0) (Finite 0 0)
                               (js_add svgWidth (js_mul padding (Finite 2 0)))
                               (js_add svgHeight (js_mul padding (Finite 2 0)))
                               (set_fillStyle (lit ''#ffffff'')
                                 (ctx_scale scale scale
                                   (set_height
                                     (js_mul (js_add svgHeight (js_mul padding (Finite 2 0))) scale)
                                     (set_width
                                       (js_mul (js_add svgWidth (js_mul padding (Finite 2 0))) scale)
                                       createCanvas))));
                           st4 = st3\<lparr>surfaces := surfaces st3 @ [canvas]\<rparr>;
                           svgData = serializeToString (heap st4 ! svgClone)
                       in if \<not> encodable svgData
                          then st4\<lparr>uncaught := uncaught st4 @ [lit ''URIError: URI malformed'']\<rparr>
                          else st4\<lparr>decoding := decoding st4 @
                                 [\<lparr>job_canvas = canvas, job_data = svgData,
                                   job_filename = filename,
                                   job_width = svgWidth, job_height = svgHeight\<rparr>]\<rparr>))))"

text \<open>
  Lines 66 to 73, and the same lines of each fallback: an object URL is created for the
  blob, a link with that name is added to the body, clicked and removed, and the URL is
  revoked; what remains is the saved file.
\<close>

definition save_file :: "js_string \<Rightarrow> payload \<Rightarrow> page \<Rightarrow> page" where
  "save_file name blob st =
     st\<lparr>downloads := downloads st @ [\<lparr>file_name = name, file_body = blob\<rparr>]\<rparr>"

text \<open>The fallback of lines 79 to 87 and 94 to 102: the serialized text is saved.\<close>

definition svg_fallback :: "image_job \<Rightarrow> page \<Rightarrow> page" where
  "svg_fallback job st =
     save_file (replace_first (lit ''.png'') (lit ''.svg'') (job_filename job))
       (SvgBlob (job_data job)) st"

text \<open>
  What happens once the image has loaded: \<open>drawImage\<close> throws, or \<open>toBlob\<close> throws, or
  \<open>toBlob\<close> calls back with null, or it calls back with a blob.
\<close>

datatype load_outcome = DrawThrows js_string | ToBlobThrows js_string | BlobNull | BlobReady

definition img_onload :: "image_job \<Rightarrow> load_outcome \<Rightarrow> page \<Rightarrow> page" where
  "img_onload job out st =
     (case out of
        DrawThrows e \<Rightarrow>
          svg_fallback job
            (st\<lparr>console := console st @ [LogError (lit ''Error converting to PNG:'') e]\<rparr>)
      | ToBlobThrows e \<Rightarrow>
          svg_fallback job
            (st\<lparr>console := console st @ [LogError (lit ''Error converting to PNG:'') e]\<rparr>)
      | BlobNull \<Rightarrow> st
      | BlobReady \<Rightarrow>
          save_file (job_filename job)
            (PngBlob (drawImage (job_data job) padding padding (job_width job) (job_height job)
               (job_canvas job))) st)"

definition img_onerror :: "image_job \<Rightarrow> page \<Rightarrow> page" where
  "img_onerror job st =
     svg_fallback job
       (st\<lparr>console := console st @ [LogError (lit ''Error loading SVG as image'') []]\<rparr>)"

datatype decode_event = OnLoad load_outcome | OnError

text \<open>The browser finishes decoding the \<open>i\<close>-th image.\<close>

definition image_done :: "nat \<Rightarrow> decode_event \<Rightarrow> page \<Rightarrow> page" where
  "image_done i ev st =
     (if i < length (decoding st)
      then (case ev of
              OnLoad out \<Rightarrow> img_onload (decoding st ! i) out (st\<lparr>decoding := remove_nth i (decoding st)\<rparr>)
            | OnError \<Rightarrow> img_onerror (decoding st ! i) (st\<lparr>decoding := remove_nth i (decoding st)\<rparr>))
      else st)"

section \<open>Events\<close>

datatype event =
  Render js_string nat
| EngineDone nat outcome
| Export "js_string option" bool
| ImageDone nat decode_event

fun step :: "event \<Rightarrow> page \<Rightarrow> page" where
  "step (Render text now) st = MermaidRenderer text now st"
| "step (EngineDone i out) st = engine_done i out st"
| "step (Export filename has_ctx) st = downloadAsPNG filename has_ctx st"
| "step (ImageDone i ev) st = image_done i ev st"

definition run :: "event list \<Rightarrow> page \<Rightarrow> page" where
  "run es st = foldl (\<lambda>s e. step e s) st es"

text \<open>
  An export and the end of its decoding: the image that the export has registered, if
  any, is the one after those already waiting.
\<close>

definition export_and_decode :: "js_string option \<Rightarrow> bool \<Rightarrow> decode_event \<Rightarrow> page \<Rightarrow> page" where
  "export_and_decode filename has_ctx ev st =
     run [Export filename has_ctx, ImageDone (length (decoding st)) ev] st"

definition files_since :: "page \<Rightarrow> page \<Rightarrow> download list" where
  "files_since st st' = drop (length (downloads st)) (downloads st')"

fun is_raster :: "download \<Rightarrow> bool" where
  "is_raster d = (case file_body d of PngBlob c \<Rightarrow> True | SvgBlob t \<Rightarrow> False)"

text \<open>Whether an event is a render of the component.\<close>

fun is_render :: "event \<Rightarrow> bool" where
  "is_render (Render text now) = True"
| "is_render e = False"

section \<open>Sample inputs\<close>

definition chart_one :: js_string where
  "chart_one = lit ''graph TD; A-->B''"

definition chart_two :: js_string where
  "chart_two = lit ''graph TD; A-->C''"

definition diagram_one :: svg_element where
  "diagram_one =
     \<lparr>viewBox = Some (Finite 100 0, Finite 50 0), rect = (Finite 200 0, Finite 100 0),
      attributes = [], style = [], children = lit ''A-B''\<rparr>"

text \<open>The view box of \<open>diagram_two\<close> is \<open>401 * 2^-2 = 100.25\<close> wide and \<open>50\<close> high.\<close>

definition diagram_two :: svg_element where
  "diagram_two =
     \<lparr>viewBox = Some (Finite 401 (- 2), Finite 50 0), rect = (Finite 200 0, Finite 100 0),
      attributes = [], style = [], children = lit ''A-C''\<rparr>"

text \<open>A page that shows \<open>diagram_two\<close>, and a page that shows an error panel.\<close>

definition page_two :: page where
  "page_two = run [Render chart_two 1000, EngineDone 0 (Success [MSvg diagram_two])] initial"

definition page_error :: page where
  "page_error = run [Render chart_one 1000, EngineDone 0 (Failure (lit ''Parse error''))] initial"

text \<open>Two attempts in flight: \<open>chart_one\<close> was rendered first, \<open>chart_two\<close> is the prop.\<close>

definition racing :: page where
  "racing = run [Render chart_one 1000, Render chart_two 1001] initial"

section \<open>Derived forms\<close>

text \<open>
  The clone, the canvas and the image job that \<open>downloadAsPNG\<close> builds for a mounted
  element, as functions of that element; they name the parts of the lemmas below.
\<close>

definition export_clone :: "svg_element \<Rightarrow> svg_element" where
  "export_clone el =
     setAttribute (lit ''height'') (NumberText (logical_height el))
       (setAttribute (lit ''width'') (NumberText (logical_width el)) el)"

definition export_canvas :: "svg_element \<Rightarrow> canvas" where
  "export_canvas el =
     fillRect (Finite 0 0) (Finite 0 0)
       (js_add (logical_width el) (js_mul padding (Finite 2 0)))
       (js_add (logical_height el) (js_mul padding (Finite 2 0)))
       (set_fillStyle (lit ''#ffffff'')
         (ctx_scale scale scale
           (set_height (js_mul (js_add (logical_height el) (js_mul padding (Finite 2 0))) scale)
             (set_width (js_mul (js_add (logical_width el) (js_mul padding (Finite 2 0))) scale)
               createCanvas))))"

definition export_job :: "js_string option \<Rightarrow> svg_element \<Rightarrow> image_job" where
  "export_job filename_arg el =
     \<lparr>job_canvas = export_canvas el, job_data = serializeToString (export_clone el),
      job_filename = (case filename_arg of None \<Rightarrow> lit ''mermaid-diagram.png'' | Some f \<Rightarrow> f),
      job_width = logical_width el, job_height = logical_height el\<rparr>"




section \<open>Properties\<close>

subsection \<open>Strings\<close>

text \<open>A string trims to the empty string exactly when all its code units are white space.\<close>

lemma trim_empty_iff: "trim s = [] \<longleftrightarrow> (\<forall>c\<in>set s. isWhiteSpace c)"
proof
  assume "trim s = []"
  then have a: "\<forall>x\<in>set (dropWhile isWhiteSpace s). isWhiteSpace x"
    by (simp add: trim_def dropWhile_eq_Nil_conv)
  have "dropWhile isWhiteSpace s = []"
  proof (rule ccontr)
    assume n: "dropWhile isWhiteSpace s \<noteq> []"
    then have "\<not> isWhiteSpace (hd (dropWhile isWhiteSpace s))"
      by (rule hd_dropWhile)
    moreover have "hd (dropWhile isWhiteSpace s) \<in> set (dropWhile isWhiteSpace s)"
      using n by simp
    ultimately show False using a by blast
  qed
  then show "\<forall>c\<in>set s. isWhiteSpace c" by (simp add: dropWhile_eq_Nil_conv)
next
  assume "\<forall>c\<in>set s. isWhiteSpace c"
  then have d: "dropWhile isWhiteSpace s = []" by (simp add: dropWhile_eq_Nil_conv)
  show "trim s = []" unfolding trim_def d by simp
qed

text \<open>The decimal digits determine the number.\<close>

lemma dec_not_Nil: "dec n \<noteq> []"
  by (subst dec.simps) simp

lemma dec_inj: "dec m = dec n \<Longrightarrow> m = n"
proof (induction m arbitrary: n rule: dec.induct)
  case (1 m)
  show ?case
  proof (cases "m < 10")
    case True
    then have dm: "dec m = [48 + m]" by (subst dec.simps) simp
    show ?thesis
    proof (cases "n < 10")
      case True
      then have "dec n = [48 + n]" by (subst dec.simps) simp
      then show ?thesis using dm "1.prems" by simp
    next
      case False
      then have "dec n = dec (n div 10) @ [48 + n mod 10]" by (subst dec.simps) simp
      then have "dec (n div 10) = []" using dm "1.prems" by simp
      then show ?thesis using dec_not_Nil by blast
    qed
  next
    case False
    then have dm: "dec m = dec (m div 10) @ [48 + m mod 10]" by (subst dec.simps) simp
    show ?thesis
    proof (cases "n < 10")
      case True
      then have "dec n = [48 + n]" by (subst dec.simps) simp
      then have "dec (m div 10) = []" using dm "1.prems" by simp
      then show ?thesis using dec_not_Nil by blast
    next
      case n: False
      then have "dec n = dec (n div 10) @ [48 + n mod 10]" by (subst dec.simps) simp
      then have e: "dec (m div 10) = dec (n div 10)" and r: "m mod 10 = n mod 10"
        using dm "1.prems" by simp_all
      have "m div 10 = n div 10" using "1.IH" [OF False e] .
      then show ?thesis using r by (metis div_mult_mod_eq)
    qed
  qed
qed

text \<open>
  Where the pattern occurs at the end of a string and nowhere before, \<open>replace_first\<close>
  replaces that suffix.
\<close>

lemma replace_first_suffix:
  assumes "\<forall>i < length base. take (length pat) (drop i (base @ pat)) \<noteq> pat"
  shows "replace_first pat rep (base @ pat) = base @ rep"
  using assms
proof (induction base)
  case Nil
  then show ?case by (cases pat) simp_all
next
  case (Cons b base)
  have "take (length pat) ((b # base) @ pat) \<noteq> pat"
    using Cons.prems by (metis drop0 length_greater_0_conv list.discI)
  moreover have "\<forall>i < length base. take (length pat) (drop i (base @ pat)) \<noteq> pat"
  proof (intro allI impI)
    fix i assume "i < length base"
    then have "Suc i < length (b # base)" by simp
    then have "take (length pat) (drop (Suc i) ((b # base) @ pat)) \<noteq> pat"
      using Cons.prems by blast
    then show "take (length pat) (drop i (base @ pat)) \<noteq> pat" by simp
  qed
  ultimately show ?case using Cons.IH by simp
qed

subsection \<open>The sample pages\<close>

lemma trim_chart_one: "trim chart_one \<noteq> []"
  by (simp add: trim_empty_iff chart_one_def lit_def isWhiteSpace_def)

lemma trim_chart_two: "trim chart_two \<noteq> []"
  by (simp add: trim_empty_iff chart_two_def lit_def isWhiteSpace_def)

lemma charts_differ: "chart_one \<noteq> chart_two"
  by (simp add: chart_one_def chart_two_def lit_def)


lemma page_two_eval:
  "page_two =
     \<lparr>heap = [styled diagram_two], surfaces = [], container = Some [SvgEl 0],
      chart = Some chart_two,
      inflight = [], decoding = [], downloads = [],
      console = [LogInfo (lit ''Mermaid diagram syntax:'') chart_two], uncaught = []\<rparr>"
  by (simp add: page_two_def run_def MermaidRenderer_def renderChart_def engine_done_def
      remove_nth_def set_innerHTML_def style_svg_def mounted_svg_def update_element_def
      initial_def trim_chart_two Let_def)

lemma page_error_eval:
  "page_error =
     \<lparr>heap = [], surfaces = [],
      container = Some [PanelEl (rendering_error_panel (lit ''Parse error''))],
      chart = Some chart_one, inflight = [], decoding = [], downloads = [],
      console = [LogInfo (lit ''Mermaid diagram syntax:'') chart_one,
                 LogError (lit ''Mermaid rendering error:'') (lit ''Parse error'')],
      uncaught = []\<rparr>"
  by (simp add: page_error_def run_def MermaidRenderer_def renderChart_def engine_done_def
      remove_nth_def catch_block_def initial_def trim_chart_one Let_def)


lemma mounted_page_two: "mounted_svg page_two = Some 0"
  by (simp add: page_two_eval mounted_svg_def)

lemma heap_page_two: "heap page_two ! 0 = styled diagram_two"
  by (simp add: page_two_eval)

lemma mounted_page_error: "mounted_svg page_error = None"
  by (simp add: page_error_eval mounted_svg_def)

lemma encodable_diagram_two: "encodable (serializeToString (styled diagram_two))"
  by (simp add: serializeToString_def styled_def setStyle_def diagram_two_def lit_def
      high_surrogate_def low_surrogate_def)



subsection \<open>The export, step by step\<close>

lemma mounted_svg_SomeD:
  "mounted_svg st = Some r \<Longrightarrow> r < length (heap st)"
  by (auto simp: mounted_svg_def split: option.splits if_splits)

lemma downloadAsPNG_None: "mounted_svg st = None \<Longrightarrow> downloadAsPNG fn c st = st"
  by (simp add: downloadAsPNG_def)

text \<open>
  With an element mounted the export adds the clone to the heap, and then returns,
  throws or registers the image.
\<close>

lemma downloadAsPNG_Some:
  assumes "mounted_svg st = Some r"
  shows "downloadAsPNG fn c st =
     (if \<not> c then st\<lparr>heap := heap st @ [export_clone (heap st ! r)],
                      surfaces := surfaces st @ [createCanvas]\<rparr>
      else if \<not> encodable (serializeToString (export_clone (heap st ! r)))
      then st\<lparr>heap := heap st @ [export_clone (heap st ! r)],
              surfaces := surfaces st @ [export_canvas (heap st ! r)],
              uncaught := uncaught st @ [lit ''URIError: URI malformed'']\<rparr>
      else st\<lparr>heap := heap st @ [export_clone (heap st ! r)],
              surfaces := surfaces st @ [export_canvas (heap st ! r)],
              decoding := decoding st @ [export_job fn (heap st ! r)]\<rparr>)"
proof -
  have r: "r < length (heap st)" using assms by (rule mounted_svg_SomeD)
  have c: "container st \<noteq> None"
    using assms by (auto simp: mounted_svg_def split: option.splits)
  show ?thesis
    using r c assms
    by (simp add: downloadAsPNG_def cloneNode_def update_element_def nth_append
        export_clone_def export_job_def export_canvas_def Let_def)
qed

lemma list_all_assign:
  "list_all P kvs \<Longrightarrow> P (k, v) \<Longrightarrow> list_all P (assign k v kvs)"
  by (induction kvs) auto

lemma encodable_export_clone:
  assumes "encodable (serializeToString el)"
  shows "encodable (serializeToString (export_clone el))"
proof -
  have w: "well_formed (lit ''width'')" and h: "well_formed (lit ''height'')"
    by (simp_all add: lit_def high_surrogate_def low_surrogate_def)
  show ?thesis
    using assms w h
    by (simp add: serializeToString_def export_clone_def setAttribute_def list_all_assign)
qed

lemma remove_nth_last: "remove_nth (length xs) (xs @ [x]) = xs"
  by (simp add: remove_nth_def)

lemma export_and_decode_eq:
  "export_and_decode fn c ev st = image_done (length (decoding st)) ev (downloadAsPNG fn c st)"
  by (simp add: export_and_decode_def run_def)

lemma export_and_decode_None:
  "mounted_svg st = None \<Longrightarrow> export_and_decode fn c ev st = st"
  by (simp add: export_and_decode_eq downloadAsPNG_None image_done_def)

lemma export_and_decode_no_job:
  assumes "mounted_svg st = Some r"
    and "\<not> c \<or> \<not> encodable (serializeToString (export_clone (heap st ! r)))"
  shows "export_and_decode fn c ev st = downloadAsPNG fn c st"
  using assms by (auto simp: export_and_decode_eq downloadAsPNG_Some image_done_def)

lemma export_and_decode_job:
  assumes "mounted_svg st = Some r"
    and "encodable (serializeToString (export_clone (heap st ! r)))"
  shows "export_and_decode fn True ev st =
     (case ev of
        OnLoad out \<Rightarrow> img_onload (export_job fn (heap st ! r)) out
                        (st\<lparr>heap := heap st @ [export_clone (heap st ! r)],
                            surfaces := surfaces st @ [export_canvas (heap st ! r)]\<rparr>)
      | OnError \<Rightarrow> img_onerror (export_job fn (heap st ! r))
                        (st\<lparr>heap := heap st @ [export_clone (heap st ! r)],
                            surfaces := surfaces st @ [export_canvas (heap st ! r)]\<rparr>))"
  using assms
  by (simp add: export_and_decode_eq downloadAsPNG_Some image_done_def remove_nth_last
      split: decode_event.splits)

text \<open>The handlers of the image write to the console and save a file, nothing else.\<close>

lemma img_onload_frame:
  "heap (img_onload job out st) = heap st" "container (img_onload job out st) = container st"
  "inflight (img_onload job out st) = inflight st" "uncaught (img_onload job out st) = uncaught st"
  by (simp_all add: img_onload_def svg_fallback_def save_file_def split: load_outcome.splits)

lemma img_onerror_frame:
  "heap (img_onerror job st) = heap st" "container (img_onerror job st) = container st"
  "inflight (img_onerror job st) = inflight st" "uncaught (img_onerror job st) = uncaught st"
  by (simp_all add: img_onerror_def svg_fallback_def save_file_def)

lemma image_done_frame:
  "heap (image_done i ev st) = heap st" "container (image_done i ev st) = container st"
  by (simp_all add: image_done_def img_onload_frame img_onerror_frame split: decode_event.splits)

lemma downloadAsPNG_container: "container (downloadAsPNG fn c st) = container st"
  by (cases "mounted_svg st") (simp_all add: downloadAsPNG_None downloadAsPNG_Some)

lemma downloadAsPNG_heap_prefix: "take (length (heap st)) (heap (downloadAsPNG fn c st)) = heap st"
  by (cases "mounted_svg st") (simp_all add: downloadAsPNG_None downloadAsPNG_Some)

lemma mounted_svg_cong:
  "container st' = container st \<Longrightarrow> take (length (heap st)) (heap st') = heap st \<Longrightarrow>
   mounted_svg st = Some r \<Longrightarrow> mounted_svg st' = Some r \<and> heap st' ! r = heap st ! r"
proof -
  assume c: "container st' = container st" and t: "take (length (heap st)) (heap st') = heap st"
    and m: "mounted_svg st = Some r"
  have r: "r < length (heap st)" using m by (rule mounted_svg_SomeD)
  have l: "length (heap st) \<le> length (heap st')"
    using arg_cong [OF t, of length] by simp
  have n: "heap st' ! r = heap st ! r"
    using arg_cong [OF t, of "\<lambda>xs. xs ! r"] r by simp
  have "mounted_svg st' = Some r"
    using m c r l by (auto simp: mounted_svg_def split: option.splits if_splits)
  then show ?thesis using n by simp
qed

text \<open>The files that an export and the end of its decoding save.\<close>

lemma files_since_save:
  "downloads st0 = downloads st \<Longrightarrow> files_since st (save_file name blob st0) =
     [\<lparr>file_name = name, file_body = blob\<rparr>]"
  by (simp add: files_since_def save_file_def)

lemma files_since_same: "downloads st0 = downloads st \<Longrightarrow> files_since st st0 = []"
  by (simp add: files_since_def)

lemma files_since_img_onerror:
  "downloads st0 = downloads st \<Longrightarrow> files_since st (img_onerror job st0) =
     [\<lparr>file_name = replace_first (lit ''.png'') (lit ''.svg'') (job_filename job),
       file_body = SvgBlob (job_data job)\<rparr>]"
  by (simp add: img_onerror_def svg_fallback_def files_since_save)

lemma files_since_img_onload:
  "downloads st0 = downloads st \<Longrightarrow> files_since st (img_onload job out st0) =
     (case out of
        DrawThrows e \<Rightarrow> [\<lparr>file_name = replace_first (lit ''.png'') (lit ''.svg'') (job_filename job),
                           file_body = SvgBlob (job_data job)\<rparr>]
      | ToBlobThrows e \<Rightarrow> [\<lparr>file_name = replace_first (lit ''.png'') (lit ''.svg'') (job_filename job),
                           file_body = SvgBlob (job_data job)\<rparr>]
      | BlobNull \<Rightarrow> []
      | BlobReady \<Rightarrow> [\<lparr>file_name = job_filename job,
                        file_body = PngBlob (drawImage (job_data job) padding padding
                          (job_width job) (job_height job) (job_canvas job))\<rparr>])"
  by (simp add: img_onload_def svg_fallback_def files_since_save files_since_same
      split: load_outcome.splits)

lemma files_since_downloadAsPNG: "files_since st (downloadAsPNG fn c st) = []"
  by (cases "mounted_svg st") (simp_all add: downloadAsPNG_None downloadAsPNG_Some files_since_def)

lemma files_export_and_decode:
  "files_since st (export_and_decode fn c ev st) =
     (case mounted_svg st of
        None \<Rightarrow> []
      | Some r \<Rightarrow>
          if c \<and> encodable (serializeToString (export_clone (heap st ! r)))
          then (case ev of
                  OnLoad out \<Rightarrow> files_since st (img_onload (export_job fn (heap st ! r)) out st)
                | OnError \<Rightarrow> files_since st (img_onerror (export_job fn (heap st ! r)) st))
          else [])"
proof (cases "mounted_svg st")
  case None
  then show ?thesis by (simp add: export_and_decode_None files_since_def)
next
  case (Some r)
  show ?thesis
  proof (cases "c \<and> encodable (serializeToString (export_clone (heap st ! r)))")
    case True
    then have c: "c = True" by simp
    show ?thesis
      using Some True unfolding c
      by (simp add: export_and_decode_job files_since_img_onload files_since_img_onerror
          split: decode_event.splits)
  next
    case False
    then have "export_and_decode fn c ev st = downloadAsPNG fn c st"
      using Some by (auto simp: export_and_decode_no_job)
    then show ?thesis using Some False by (auto simp: files_since_downloadAsPNG)
  qed
qed

lemma is_raster_simps:
  "is_raster \<lparr>file_name = n, file_body = PngBlob c\<rparr> = True"
  "is_raster \<lparr>file_name = n, file_body = SvgBlob t\<rparr> = False"
  by simp_all

text \<open>
  The arithmetic of lines 42 and 43. A value of at most 53 bits whose last bit is in the
  range of the exponent is not rounded.
\<close>

lemma round_double_exact:
  assumes "\<bar>m\<bar> < 2 ^ 53" and "- 1074 \<le> e" and "e \<le> 0"
  shows "round_double m e = Finite m e"
proof -
  have b: "bitlen \<bar>m\<bar> \<le> 53" using assms(1) by (simp add: bitlen_le_iff_power)
  then have s: "nat (max (bitlen \<bar>m\<bar> - 53) (- 1074 - e)) = 0" using assms(2) by simp
  have o: "\<not> 1024 < bitlen \<bar>m\<bar> + (e + int 0)" using b assms(3) by simp
  have g: "sgn m * \<bar>m\<bar> = m" by (simp add: sgn_mult_abs)
  have "round_double m e = Finite (sgn m * \<bar>m\<bar>) (e + int 0)"
    unfolding round_double_def Let_def s using o by simp
  then show ?thesis using g by simp
qed

lemma padding_twice: "js_mul padding (Finite 2 0) = Finite 80 0"
  by (simp add: padding_def round_double_exact)

text \<open>
  For \<open>W = m / 2^j\<close>, not negative, such that \<open>(W + 80) * 2\<close> has at most 53 bits, the
  sum and the product of line 42 are exact.
\<close>

lemma exact_sum:
  assumes "0 \<le> m" and "(m + 80 * 2 ^ j) * 2 < 2 ^ 53"
  shows "js_mul (js_add (Finite m (- int j)) (js_mul padding (Finite 2 0))) scale =
         Finite ((m + 80 * 2 ^ j) * 2) (- int j)"
proof -
  define x :: int where "x = 2 ^ j"
  have p: "0 < x" by (simp add: x_def)
  have b: "(m + 80 * x) * 2 < 9007199254740992" using assms(2) by (simp add: x_def)
  have x: "x < 70368744177664" using b assms(1) by (simp add: algebra_simps)
  have "\<not> 46 \<le> j"
  proof
    assume "46 \<le> j"
    then have "(2::int) ^ 46 \<le> 2 ^ j" by (rule power_increasing) simp
    then show False using x by (simp add: x_def)
  qed
  then have j: "j < 46" by simp
  have e: "- 1074 \<le> - int j" "- int j \<le> 0" using j by simp_all
  have "\<bar>m + 80 * x\<bar> < 9007199254740992" using b assms(1) p by (simp add: algebra_simps)
  then have s: "\<bar>m + 80 * 2 ^ j\<bar> < 2 ^ 53" by (simp add: x_def)
  have a: "js_add (Finite m (- int j)) (Finite 80 0) = Finite (m + 80 * 2 ^ j) (- int j)"
    using round_double_exact [OF s e] by simp
  have "\<bar>(m + 80 * x) * 2\<bar> < 9007199254740992" using b assms(1) p by (simp add: algebra_simps)
  then have t: "\<bar>(m + 80 * 2 ^ j) * 2\<bar> < 2 ^ 53" by (simp add: x_def)
  have "js_mul (js_add (Finite m (- int j)) (js_mul padding (Finite 2 0))) scale =
      js_mul (Finite (m + 80 * 2 ^ j) (- int j)) (Finite 2 0)"
    by (simp only: padding_twice a scale_def)
  also have "\<dots> = round_double ((m + 80 * 2 ^ j) * 2) (- int j + 0)"
    by (simp only: js_mul.simps)
  also have "\<dots> = Finite ((m + 80 * 2 ^ j) * 2) (- int j)"
    using round_double_exact [OF t e] by simp
  finally show ?thesis .
qed

text \<open>The dimension that the canvas takes from that product: its whole part.\<close>

lemma surface_dimension:
  assumes "0 \<le> m" and "(m + 80 * 2 ^ j) * 2 < 2 ^ 53" and "m < (2 ^ 30 - 80) * 2 ^ j"
  shows "set_dimension d (js_mul (js_add (Finite m (- int j)) (js_mul padding (Finite 2 0))) scale) =
         nat \<lfloor>(real_of_int m / 2 ^ j + 80) * 2\<rfloor>"
proof -
  define x :: int where "x = 2 ^ j"
  define S where "S = (m + 80 * x) * 2"
  have p: "0 < x" by (simp add: x_def)
  have pos: "0 < S" using assms(1) p by (simp add: S_def algebra_simps)
  have "m < 1073741744 * x" using assms(3) by (simp add: x_def)
  then have sx: "S < 2147483648 * x" by (simp add: S_def)
  have "S div x * x + S mod x = S" by simp
  moreover have "0 \<le> S mod x" using p by simp
  ultimately have "S div x * x < 2147483648 * x" using sx by linarith
  then have ub: "S div x < 2147483648" using p by (simp add: mult_less_cancel_right)
  have lb: "0 \<le> S div x" using pos p by (simp add: pos_imp_zdiv_nonneg_iff)
  have d: "(if 0 \<le> - int j then \<bar>S\<bar> * 2 ^ nat (- int j)
            else \<bar>S\<bar> div 2 ^ nat (- (- int j))) = S div x"
    using pos by (cases "j = 0") (simp_all add: x_def)
  have g: "sgn S = 1" using pos by simp
  have u: "to_unsigned_long (Finite S (- int j)) = nat (S div x)"
    unfolding to_unsigned_long.simps d g using lb ub by simp
  have "(real_of_int m / 2 ^ j + 80) * 2 = real_of_int S / real_of_int x"
    by (simp add: S_def x_def field_simps)
  then have f: "\<lfloor>(real_of_int m / 2 ^ j + 80) * 2\<rfloor> = S div x"
    by (simp only: floor_divide_of_int_eq)
  have n: "nat (S div x) \<le> 2147483647" using ub by simp
  have r: "js_mul (js_add (Finite m (- int j)) (js_mul padding (Finite 2 0))) scale =
      Finite S (- int j)"
    unfolding S_def x_def by (rule exact_sum [OF assms(1,2)])
  show ?thesis
    unfolding r set_dimension_def u f using n by simp
qed

text \<open>For whole dimensions the canvas has the size of the formula itself.\<close>

lemma whole_dimension:
  assumes "0 \<le> m" and "m < 2 ^ 30 - 80"
  shows "set_dimension d (js_mul (js_add (Finite m 0) (js_mul padding (Finite 2 0))) scale) =
         nat ((m + 80) * 2)"
proof -
  have "set_dimension d (js_mul (js_add (Finite m (- int 0)) (js_mul padding (Finite 2 0))) scale) =
      nat \<lfloor>(real_of_int m / 2 ^ 0 + 80) * 2\<rfloor>"
    using assms by (intro surface_dimension) simp_all
  moreover have "(real_of_int m / 2 ^ 0 + 80) * 2 = real_of_int ((m + 80) * 2)" by simp
  ultimately show ?thesis by (simp only: floor_of_int) simp
qed

text \<open>
  Where the sum is rounded: a view box \<open>20 - 2^-48\<close> wide. \<open>W + 80\<close> has 55 bits and
  rounds to \<open>100\<close>, and the canvas is \<open>200\<close> wide.
\<close>

lemma rounded_sum:
  "js_add (Finite (20 * 2 ^ 48 - 1) (- 48)) (js_mul padding (Finite 2 0)) = Finite (25 * 2 ^ 48) (- 46)"
proof -
  have b: "bitlen (28147497671065599 :: int) = 55"
    by (simp add: compute_bitlen)
  have c: "bitlen (7036874417766400 :: int) = 53"
    by (simp add: compute_bitlen)
  show ?thesis
    by (simp add: padding_twice round_double_def Let_def b c)
qed

lemma rounded_dimension:
  "set_dimension 300
     (js_mul (js_add (Finite (20 * 2 ^ 48 - 1) (- 48)) (js_mul padding (Finite 2 0))) scale) = 200"
proof -
  have c: "bitlen (14073748835532800 :: int) = 54"
    by (simp add: compute_bitlen)
  have d: "bitlen (7036874417766400 :: int) = 53"
    by (simp add: compute_bitlen)
  show ?thesis
    unfolding rounded_sum
    by (simp add: scale_def round_double_def Let_def c d set_dimension_def)
qed



subsection \<open>The raster exporter\<close>

text \<open>
  Claim C5. An export with no vector element mounted (no container, or a container
  without an \<open>svg\<close> element) is a silent no-op: the page is exactly as before, so no file
  is saved, no panel or log line is written and no image is left decoding, and nothing
  happens later either.
\<close>

theorem C5_nothing_mounted:
  "mounted_svg st = None \<Longrightarrow>
     downloadAsPNG filename has_ctx st = st \<and> export_and_decode filename has_ctx ev st = st"
  by (simp add: downloadAsPNG_None export_and_decode_None)

text \<open>Claim C5 on the page that shows the error panel.\<close>

theorem C5_nothing_mounted_witness:
  "mounted_svg page_error = None \<and> downloadAsPNG None True page_error = page_error \<and>
   export_and_decode None True OnError page_error = page_error"
  using mounted_page_error C5_nothing_mounted [OF mounted_page_error, of None True OnError]
  by simp

text \<open>
  Claim C6. An export leaves the mounted vector element as it is: after the call, and
  after the handler of the image has run, the container has the same children, the same
  element is the mounted one, its serialized form is what it was, and every object that
  existed before the call is unchanged (the export writes to the clone only, a new
  object).
\<close>

theorem C6_mounted_element_untouched:
  assumes "mounted_svg st = Some r"
  shows "mounted_svg (downloadAsPNG filename has_ctx st) = Some r \<and>
         container (downloadAsPNG filename has_ctx st) = container st \<and>
         serializeToString (heap (downloadAsPNG filename has_ctx st) ! r) =
           serializeToString (heap st ! r) \<and>
         mounted_svg (export_and_decode filename has_ctx ev st) = Some r \<and>
         container (export_and_decode filename has_ctx ev st) = container st \<and>
         serializeToString (heap (export_and_decode filename has_ctx ev st) ! r) =
           serializeToString (heap st ! r) \<and>
         take (length (heap st)) (heap (export_and_decode filename has_ctx ev st)) = heap st"
proof -
  let ?a = "downloadAsPNG filename has_ctx st"
  let ?b = "export_and_decode filename has_ctx ev st"
  have ca: "container ?a = container st" by (rule downloadAsPNG_container)
  have ta: "take (length (heap st)) (heap ?a) = heap st" by (rule downloadAsPNG_heap_prefix)
  have cb: "container ?b = container st"
    by (simp add: export_and_decode_eq image_done_frame downloadAsPNG_container)
  have tb: "take (length (heap st)) (heap ?b) = heap st"
    by (simp add: export_and_decode_eq image_done_frame downloadAsPNG_heap_prefix)
  from mounted_svg_cong [OF ca ta assms] mounted_svg_cong [OF cb tb assms] ca cb tb
  show ?thesis by simp
qed

text \<open>Claim C6 on the page that shows \<open>diagram_two\<close>, for an export that saves the image.\<close>

theorem C6_mounted_element_untouched_witness:
  "mounted_svg page_two = Some 0 \<and>
   mounted_svg (export_and_decode None True (OnLoad BlobReady) page_two) = Some 0 \<and>
   container (export_and_decode None True (OnLoad BlobReady) page_two) = Some [SvgEl 0] \<and>
   serializeToString (heap (export_and_decode None True (OnLoad BlobReady) page_two) ! 0) =
     serializeToString (styled diagram_two)"
  using mounted_page_two heap_page_two
    C6_mounted_element_untouched [OF mounted_page_two, of None True "OnLoad BlobReady"]
  by (simp add: page_two_eval)

text \<open>
  Claim C10. With a vector element mounted and no 2D context for the canvas, the export
  returns at line 37: no file is saved, now or later, no image is left decoding (so
  nothing was serialized for it), nothing is logged and nothing is thrown, and the
  container and the mounted element are as before.
\<close>

theorem C10_no_drawing_context:
  assumes "mounted_svg st = Some r"
  shows "downloads (downloadAsPNG filename False st) = downloads st \<and>
         decoding (downloadAsPNG filename False st) = decoding st \<and>
         console (downloadAsPNG filename False st) = console st \<and>
         uncaught (downloadAsPNG filename False st) = uncaught st \<and>
         container (downloadAsPNG filename False st) = container st \<and>
         heap (downloadAsPNG filename False st) ! r = heap st ! r \<and>
         export_and_decode filename False ev st = downloadAsPNG filename False st"
proof -
  have r: "r < length (heap st)" using assms by (rule mounted_svg_SomeD)
  have "export_and_decode filename False ev st = downloadAsPNG filename False st"
    using assms by (simp add: export_and_decode_no_job)
  then show ?thesis
    using assms r by (simp add: downloadAsPNG_Some nth_append)
qed

text \<open>Claim C10 on the page that shows \<open>diagram_two\<close>.\<close>

theorem C10_no_drawing_context_witness:
  "mounted_svg page_two = Some 0 \<and>
   downloads (downloadAsPNG None False page_two) = [] \<and>
   decoding (downloadAsPNG None False page_two) = [] \<and>
   uncaught (downloadAsPNG None False page_two) = [] \<and>
   container (downloadAsPNG None False page_two) = Some [SvgEl 0] \<and>
   heap (downloadAsPNG None False page_two) ! 0 = styled diagram_two"
  using mounted_page_two C10_no_drawing_context [OF mounted_page_two, of None OnError]
  by (simp add: page_two_eval)

text \<open>
  Claim C2, as stated, fails: the page shows \<open>diagram_two\<close>, a vector element that is
  not empty, the export finds no 2D context, and no file is saved, whatever the image
  would have done.
\<close>

theorem C2_no_context_counterexample:
  "mounted_svg page_two = Some 0 \<and> children (heap page_two ! 0) \<noteq> [] \<and>
   files_since page_two (export_and_decode None False (OnLoad BlobReady) page_two) = []"
proof -
  have "export_and_decode None False (OnLoad BlobReady) page_two = downloadAsPNG None False page_two"
    using mounted_page_two by (simp add: export_and_decode_no_job)
  then have "files_since page_two (export_and_decode None False (OnLoad BlobReady) page_two) = []"
    using mounted_page_two by (simp add: files_since_def downloadAsPNG_Some)
  moreover have "children (heap page_two ! 0) \<noteq> []"
    by (simp add: heap_page_two styled_def setStyle_def diagram_two_def lit_def)
  ultimately show ?thesis using mounted_page_two by simp
qed

text \<open>
  Claim C2, amended. An export and the end of its decoding save at most one file, never
  two. When a vector element is mounted, the 2D context is there and the serialized
  markup can be encoded, exactly one file is saved in each of these cases: the raster
  image when \<open>toBlob\<close> delivers a blob, and the vector fallback when the image fails to
  decode, when \<open>drawImage\<close> throws or when \<open>toBlob\<close> throws.
\<close>

theorem C2_one_file_when_decoded:
  "length (files_since st (export_and_decode filename has_ctx ev st)) \<le> 1 \<and>
   (has_ctx \<and> mounted_svg st = Some r \<and> encodable (serializeToString (heap st ! r)) \<longrightarrow>
      (ev = OnLoad BlobReady \<longrightarrow>
         map is_raster (files_since st (export_and_decode filename has_ctx ev st)) = [True]) \<and>
      (ev = OnError \<or> ev = OnLoad (DrawThrows e) \<or> ev = OnLoad (ToBlobThrows e) \<longrightarrow>
         map is_raster (files_since st (export_and_decode filename has_ctx ev st)) = [False]))"
proof -
  have a: "length (files_since st (export_and_decode filename has_ctx ev st)) \<le> 1"
    by (simp add: files_export_and_decode files_since_img_onload files_since_img_onerror
        split: option.splits decode_event.splits load_outcome.splits)
  have b: "map is_raster (files_since st (export_and_decode filename has_ctx ev st)) = [True]"
    if "has_ctx" "mounted_svg st = Some r" "encodable (serializeToString (heap st ! r))"
      "ev = OnLoad BlobReady"
    using that
    by (simp add: files_export_and_decode files_since_img_onload encodable_export_clone
        del: is_raster.simps add: is_raster_simps)
  have c: "map is_raster (files_since st (export_and_decode filename has_ctx ev st)) = [False]"
    if "has_ctx" "mounted_svg st = Some r" "encodable (serializeToString (heap st ! r))"
      "ev = OnError \<or> ev = OnLoad (DrawThrows e) \<or> ev = OnLoad (ToBlobThrows e)"
    using that
    by (auto simp add: files_export_and_decode files_since_img_onload files_since_img_onerror
        encodable_export_clone)
  from a b c show ?thesis by blast
qed

text \<open>
  The amended claim C2 on the page that shows \<open>diagram_two\<close>: the fallback after a failed
  decode, and the raster image.
\<close>

theorem C2_one_file_when_decoded_witness:
  "mounted_svg page_two = Some 0 \<and> encodable (serializeToString (heap page_two ! 0)) \<and>
   map is_raster (files_since page_two (export_and_decode None True OnError page_two)) = [False] \<and>
   map is_raster (files_since page_two (export_and_decode None True (OnLoad BlobReady) page_two)) = [True]"
  using mounted_page_two encodable_diagram_two heap_page_two
    C2_one_file_when_decoded [of page_two None True OnError 0 "[]"]
    C2_one_file_when_decoded [of page_two None True "OnLoad BlobReady" 0 "[]"]
  by simp

text \<open>
  The branch that the amended claim leaves out: when \<open>toBlob\<close> calls back with null,
  line 65 skips the download and there is no \<open>else\<close>.
\<close>

lemma null_blob_no_file:
  "files_since page_two (export_and_decode None True (OnLoad BlobNull) page_two) = []"
  using mounted_page_two encodable_diagram_two heap_page_two
  by (simp add: files_export_and_decode files_since_img_onload encodable_export_clone)




text \<open>
  Claim C9 at the file name \<open>flow.png.v2.png\<close>, after a failed decode: line 98 replaces
  the first \<open>.png\<close> of the name, not its extension, and the vector file is saved as
  \<open>flow.svg.v2.png\<close>.
\<close>

theorem C9_first_occurrence_only:
  "map file_name (files_since page_two
     (export_and_decode (Some (lit ''flow.png.v2.png'')) True OnError page_two)) =
   [lit ''flow.svg.v2.png'']"
  using mounted_page_two encodable_diagram_two heap_page_two
  by (simp add: files_export_and_decode files_since_img_onerror encodable_export_clone
      export_job_def lit_def)

text \<open>
  Where the claim holds: the default name, and every name whose only \<open>.png\<close> is its
  extension.
\<close>

lemma fallback_default_name:
  "map file_name (files_since page_two (export_and_decode None True OnError page_two)) =
   [lit ''mermaid-diagram.svg'']"
  using mounted_page_two encodable_diagram_two heap_page_two
  by (simp add: files_export_and_decode files_since_img_onerror encodable_export_clone
      export_job_def lit_def)

lemma fallback_name_extension:
  assumes "\<forall>i < length base. take 4 (drop i (base @ lit ''.png'')) \<noteq> lit ''.png''"
  shows "replace_first (lit ''.png'') (lit ''.svg'') (base @ lit ''.png'') = base @ lit ''.svg''"
proof -
  have "length (lit ''.png'') = 4" by (simp add: lit_def)
  then show ?thesis using assms replace_first_suffix [of base "lit ''.png''" "lit ''.svg''"] by simp
qed

subsection \<open>The render controller\<close>









text \<open>Without a container, only a render of the component brings one back.\<close>

lemma container_None_kept:
  "\<not> is_render e \<Longrightarrow> container st = None \<Longrightarrow> container (step e st) = None"
proof (cases e)
  case (EngineDone i out)
  assume "container st = None"
  then show ?thesis
    using EngineDone
    by (cases out) (simp_all add: engine_done_def catch_block_def Let_def)
next
  case (Export fn c)
  assume "container st = None"
  then show ?thesis using Export by (simp add: downloadAsPNG_container)
next
  case (ImageDone i ev)
  assume "container st = None"
  then show ?thesis using ImageDone by (simp add: image_done_frame)
qed simp

lemma container_None_run:
  "\<forall>e\<in>set es. \<not> is_render e \<Longrightarrow> container st = None \<Longrightarrow> container (run es st) = None"
proof (induction es arbitrary: st)
  case Nil
  then show ?case by (simp add: run_def)
next
  case (Cons e es)
  have "container (step e st) = None" using Cons.prems by (simp add: container_None_kept)
  then have "container (run es (step e st)) = None" using Cons by simp
  then show ?case by (simp add: run_def)
qed

text \<open>
  Claim C4. For a chart that is empty or all white space the component renders no
  container, so nothing is shown; no attempt is started, nothing is logged and nothing
  is thrown. Nothing is shown either after any events that follow, up to the next
  render: attempts that were in flight write nothing.
\<close>

theorem C4_blank_chart_is_idle:
  assumes "\<forall>c\<in>set text. isWhiteSpace c"
  shows "container (MermaidRenderer text now st) = None \<and>
         display (MermaidRenderer text now st) = [] \<and>
         inflight (MermaidRenderer text now st) = inflight st \<and>
         console (MermaidRenderer text now st) = console st \<and>
         uncaught (MermaidRenderer text now st) = uncaught st \<and>
         ((\<forall>e\<in>set es. \<not> is_render e) \<longrightarrow> display (run es (MermaidRenderer text now st)) = [])"
proof -
  have t: "trim text = []" using assms by (simp add: trim_empty_iff)
  have c: "container (MermaidRenderer text now st) = None"
    using t by (simp add: MermaidRenderer_def renderChart_def Let_def)
  have "display (run es (MermaidRenderer text now st)) = []" if "\<forall>e\<in>set es. \<not> is_render e"
    using container_None_run [OF that c] by (simp add: display_def)
  then show ?thesis
    using t c by (simp add: MermaidRenderer_def renderChart_def Let_def display_def)
qed

text \<open>
  Claim C4 for a chart of a space, a tab, a line feed, a no-break space and an em
  space: on the page that shows \<open>diagram_two\<close>, and with two attempts in flight, one of
  which then completes.
\<close>

theorem C4_blank_chart_is_idle_witness:
  "list_all isWhiteSpace (lit '' '' @ [9, 10, 160, 8195]) \<and>
   container (MermaidRenderer (lit '' '' @ [9, 10, 160, 8195]) 2000 page_two) = None \<and>
   display (MermaidRenderer (lit '' '' @ [9, 10, 160, 8195]) 2000 page_two) = [] \<and>
   inflight (MermaidRenderer (lit '' '' @ [9, 10, 160, 8195]) 2000 page_two) = [] \<and>
   display (run [EngineDone 0 (Success [MSvg diagram_one])]
     (MermaidRenderer (lit '' '' @ [9, 10, 160, 8195]) 2000 racing)) = []"
proof -
  have w: "\<forall>c\<in>set (lit '' '' @ [9, 10, 160, 8195]). isWhiteSpace c"
    by (simp add: lit_def isWhiteSpace_def)
  have i: "inflight page_two = []" by (simp add: page_two_eval)
  show ?thesis
    using w i
      C4_blank_chart_is_idle [OF w, of 2000 page_two "[]"]
      C4_blank_chart_is_idle [OF w, of 2000 racing "[EngineDone 0 (Success [MSvg diagram_one])]"]
    by (simp add: list_all_iff)
qed

text \<open>
  Claim C7 at two charts rendered at the same instant \<open>1000\<close> of \<open>Date.now()\<close>: two
  attempts are in flight, and both have the identifier \<open>mermaid-1000\<close>.
\<close>

theorem C7_same_instant_same_identifier:
  "map attempt_chart (inflight (run [Render chart_one 1000, Render chart_two 1000] initial)) =
     [chart_one, chart_two] \<and>
   map attempt_id (inflight (run [Render chart_one 1000, Render chart_two 1000] initial)) =
     [lit ''mermaid-1000'', lit ''mermaid-1000'']"
proof -
  have d: "lit ''mermaid-'' @ dec 1000 = lit ''mermaid-1000''"
    by (simp add: dec.simps lit_def)
  show ?thesis
    using charts_differ
    by (simp add: run_def MermaidRenderer_def renderChart_def initial_def
        trim_chart_one trim_chart_two Let_def d)
qed

text \<open>Where the claim holds: attempts started at different instants differ in their identifiers.\<close>

lemma distinct_instants_distinct_identifiers:
  "now \<noteq> now' \<Longrightarrow> lit ''mermaid-'' @ dec now \<noteq> lit ''mermaid-'' @ dec now'"
  using dec_inj by auto

text \<open>
  Claim C8 at a chart whose attempt is in flight when the prop becomes the empty
  string, and whose rendering then fails: there is no container, line 156 throws out of
  the \<open>catch\<close> block, no panel is shown and the promise of \<open>renderChart\<close> is rejected.
\<close>

theorem C8_failure_without_container:
  "display (run [Render chart_one 1000, Render [] 1001,
                 EngineDone 0 (Failure (lit ''Parse error''))] initial) = [] \<and>
   uncaught (run [Render chart_one 1000, Render [] 1001,
                  EngineDone 0 (Failure (lit ''Parse error''))] initial) = [null_innerHTML]"
proof -
  have n: "chart_one \<noteq> []" by (simp add: chart_one_def lit_def)
  have t: "trim [] = []" by (simp add: trim_def)
  show ?thesis
    using n
    by (simp add: run_def MermaidRenderer_def renderChart_def initial_def engine_done_def
        remove_nth_def catch_block_def display_def trim_chart_one t Let_def)
qed

text \<open>
  Where the claim holds: with the container rendered, a failed attempt shows the panel,
  with the text of the error as its detail, and throws nothing.
\<close>

lemma failure_with_container:
  assumes "container st \<noteq> None" and "i < length (inflight st)"
  shows "display (engine_done i (Failure e) st) = [ShownPanel (rendering_error_panel e)] \<and>
         uncaught (engine_done i (Failure e) st) = uncaught st"
  using assms
  by (auto simp: engine_done_def catch_block_def display_def Let_def split: option.splits)

end
